theory Spec2Isabelle
  imports Main "HOL-Library.Multiset"
begin

section \<open>mhask: a shallow embedding of \<^verbatim>\<open>mhask/__init__.py\<close>\<close>

text \<open>
  Conventions of the embedding.
  \<^item> A Python \<^verbatim>\<open>str\<close> is a \<open>string\<close>; every \<open>char\<close> stands for one code point
    (so the model covers the texts whose code points are below 256), and \<open>length\<close> is
    Python's \<^verbatim>\<open>len\<close> on a \<^verbatim>\<open>str\<close>.
  \<^item> An exception that derives from \<^verbatim>\<open>Exception\<close> is a value of type \<open>exn\<close>; a
    computation that may raise one returns \<open>exn + 'a\<close>, with \<open>Inl\<close> for the exception.
    What a handler may raise is a value of type \<open>raised\<close>: an \<open>exn\<close>, or an exception that
    derives from \<^verbatim>\<open>BaseException\<close> only.
  \<^item> A \<^verbatim>\<open>dict\<close> is an association list with distinct keys, in insertion order. The
    interpreter does not promise that order of iteration; the properties below are
    stated so that they do not depend on it.
  \<^item> The module runs on MicroPython (it imports \<^verbatim>\<open>ure\<close>, \<^verbatim>\<open>ujson\<close>, \<^verbatim>\<open>ulogging\<close>);
    the string methods are modelled as that interpreter implements them.
  \<^item> Calls to the logger are left out: they have no effect on the values computed.
\<close>

subsection \<open>Exceptions\<close>

text \<open>The exceptions that derive from \<^verbatim>\<open>Exception\<close>: the module's own \<^verbatim>\<open>HTTPException\<close>, and
  any other (\<^verbatim>\<open>ValueError\<close>, \<^verbatim>\<open>KeyError\<close>, \<^verbatim>\<open>IndexError\<close>, ...).\<close>

datatype exn =
    HTTPException string int      \<comment> \<open>message, status\<close>
  | Error string string           \<comment> \<open>any other subclass of \<^verbatim>\<open>Exception\<close>: class name, message\<close>

text \<open>Whatever a \<^verbatim>\<open>raise\<close> may raise: an exception of the kind above, or one that derives
  from \<^verbatim>\<open>BaseException\<close> and not from \<^verbatim>\<open>Exception\<close> (\<^verbatim>\<open>KeyboardInterrupt\<close>, \<^verbatim>\<open>SystemExit\<close>,
  \<^verbatim>\<open>GeneratorExit\<close>), which a clause \<^verbatim>\<open>except Exception\<close> does not catch.\<close>

datatype raised =
    Exc exn
  | BaseExc string string         \<comment> \<open>class name, message\<close>

subsection \<open>Python string operations\<close>

abbreviation CR :: char where "CR \<equiv> CHR 0x0D"
abbreviation LF :: char where "LF \<equiv> CHR 0x0A"
abbreviation CRLF :: string where "CRLF \<equiv> [CR, LF]"

text \<open>\<^verbatim>\<open>str.isspace\<close> of one character: space, tab, newline, vertical tab, form feed, return.\<close>

definition isspace :: "char \<Rightarrow> bool" where
  "isspace c = (c = CHR '' '' \<or> c = CHR 0x09 \<or> c = LF \<or> c = CHR 0x0B \<or> c = CHR 0x0C \<or> c = CR)"

text \<open>\<^verbatim>\<open>s.splitlines()\<close>: lines end at \<^verbatim>\<open>\n\<close>, \<^verbatim>\<open>\r\<close> or \<^verbatim>\<open>\r\n\<close>; the terminators are dropped and
  a terminator at the very end opens no further line.\<close>

fun splitlines :: "string \<Rightarrow> string list" where
  "splitlines [] = []"
| "splitlines (c # cs) =
     (if c = LF then [] # splitlines cs
      else if c = CR then
        (case cs of
           [] \<Rightarrow> [[]]
         | d # ds \<Rightarrow> if d = LF then [] # splitlines ds else [] # splitlines cs)
      else
        (case splitlines cs of
           [] \<Rightarrow> [[c]]
         | l # ls \<Rightarrow> (c # l) # ls))"

text \<open>\<^verbatim>\<open>s.split()\<close>: the maximal runs of non-whitespace characters. \<open>cur\<close> is the token being
  read, reversed.\<close>

fun split_ws_from :: "string \<Rightarrow> string \<Rightarrow> string list" where
  "split_ws_from cur [] = (if cur = [] then [] else [rev cur])"
| "split_ws_from cur (c # cs) =
     (if isspace c then (if cur = [] then split_ws_from [] cs else rev cur # split_ws_from [] cs)
      else split_ws_from (c # cur) cs)"

definition split_ws :: "string \<Rightarrow> string list" where
  "split_ws s = split_ws_from [] s"

text \<open>\<^verbatim>\<open>s.split(sep)\<close> for a one-character separator: never the empty list.\<close>

fun split_on :: "char \<Rightarrow> string \<Rightarrow> string list" where
  "split_on sep [] = [[]]"
| "split_on sep (c # cs) =
     (if c = sep then [] # split_on sep cs
      else (case split_on sep cs of
              [] \<Rightarrow> [[c]]
            | l # ls \<Rightarrow> (c # l) # ls))"

text \<open>\<^verbatim>\<open>s.split(sep, 1)\<close>: cut at the first separator only.\<close>

definition split_once :: "char \<Rightarrow> string \<Rightarrow> string list" where
  "split_once sep s =
     (if sep \<in> set s then [takeWhile (\<lambda>c. c \<noteq> sep) s, tl (dropWhile (\<lambda>c. c \<noteq> sep) s)]
      else [s])"

text \<open>\<^verbatim>\<open>s.strip()\<close> and \<^verbatim>\<open>s.lstrip(':')\<close>.\<close>

definition strip :: "string \<Rightarrow> string" where
  "strip s = rev (dropWhile isspace (rev (dropWhile isspace s)))"

definition lstrip_chr :: "char \<Rightarrow> string \<Rightarrow> string" where
  "lstrip_chr x s = dropWhile (\<lambda>c. c = x) s"

text \<open>\<^verbatim>\<open>sep.join(xs)\<close>.\<close>

fun join :: "string \<Rightarrow> string list \<Rightarrow> string" where
  "join sep [] = []"
| "join sep [x] = x"
| "join sep (x # y # ys) = x @ sep @ join sep (y # ys)"

text \<open>\<^verbatim>\<open>s.startswith(p)\<close>.\<close>

definition startswith :: "string \<Rightarrow> string \<Rightarrow> bool" where
  "startswith s p = (take (length p) s = p)"

text \<open>\<^verbatim>\<open>s.replace(old, new)\<close>: every occurrence of \<open>old\<close>, left to right, without overlap; an
  empty \<open>old\<close> matches before every character and at the end.\<close>

function replace_from :: "string \<Rightarrow> string \<Rightarrow> string \<Rightarrow> string" where
  "replace_from old new s =
     (if s = [] then []
      else if old \<noteq> [] \<and> startswith s old then new @ replace_from old new (drop (length old) s)
      else hd s # replace_from old new (tl s))"
  by pat_completeness auto
termination
  by (relation "measure (\<lambda>(old, new, s). length s)") auto

declare replace_from.simps [simp del]

definition replace :: "string \<Rightarrow> string \<Rightarrow> string \<Rightarrow> string" where
  "replace s old new =
     (if old = [] then new @ concat (map (\<lambda>c. c # new) s) else replace_from old new s)"

text \<open>\<^verbatim>\<open>str(n)\<close> of an integer: decimal digits, a minus sign for a negative number.\<close>

definition digit :: "nat \<Rightarrow> char" where
  "digit d = ''0123456789'' ! d"

function str_nat :: "nat \<Rightarrow> string" where
  "str_nat n = (if n < 10 then [digit n] else str_nat (n div 10) @ [digit (n mod 10)])"
  by pat_completeness auto
termination
  by (relation "measure id") auto

declare str_nat.simps [simp del]

definition str_int :: "int \<Rightarrow> string" where
  "str_int i = (if i < 0 then CHR ''-'' # str_nat (nat (- i)) else str_nat (nat i))"

subsection \<open>Dictionaries\<close>

text \<open>\<^verbatim>\<open>d[k] = v\<close>: an existing key keeps its place, a new key goes to the end.\<close>

fun dict_set :: "('k \<times> 'v) list \<Rightarrow> 'k \<Rightarrow> 'v \<Rightarrow> ('k \<times> 'v) list" where
  "dict_set [] k v = [(k, v)]"
| "dict_set ((k', v') # d) k v = (if k' = k then (k, v) # d else (k', v') # dict_set d k v)"

text \<open>\<^verbatim>\<open>dict(d, **e)\<close>: the entries of \<open>e\<close> stored into a copy of \<open>d\<close>, in order.\<close>

definition dict_merge :: "('k \<times> 'v) list \<Rightarrow> ('k \<times> 'v) list \<Rightarrow> ('k \<times> 'v) list" where
  "dict_merge d e = foldl (\<lambda>acc (k, v). dict_set acc k v) d e"

subsection \<open>The status table and \<^verbatim>\<open>getstatus\<close>\<close>

text \<open>The keys of \<^verbatim>\<open>statuses\<close> are integers (one code) or one-character strings (a class
  of codes).\<close>

datatype key = KStr string | KInt int

definition statuses :: "(key \<times> (string \<times> string)) list" where
  "statuses = [
    (KStr ''1'', (''Information'',
       '''')),
    (KInt 100, (''Continue'',
       ''The server has received the request headers, and the client should proceed to send the request body'')),
    (KInt 101, (''Switching Protocols'',
       ''The requester has asked the server to switch protocols'')),
    (KInt 103, (''Checkpoint'',
       ''Used in the resumable requests proposal to resume aborted PUT or POST requests'')),
    (KStr ''2'', (''Successful'',
       '''')),
    (KInt 200, (''OK'',
       ''The request is OK (this is the standard response for successful HTTP requests)'')),
    (KInt 201, (''Created'',
       ''The request has been fulfilled, and a new resource is created'')),
    (KInt 202, (''Accepted'',
       ''The request has been accepted for processing, but the processing has not been completed'')),
    (KInt 203, (''Non-Authoritative Information'',
       ''The request has been successfully processed, but is returning information that may be from another source'')),
    (KInt 204, (''No Content'',
       ''The request has been successfully processed, but is not returning any content'')),
    (KInt 205, (''Reset Content'',
       ''The request has been successfully processed, but is not returning any content, and requires that the requester reset the document view'')),
    (KInt 206, (''Partial Content'',
       ''The server is delivering only part of the resource due to a range header sent by the client'')),
    (KStr ''3'', (''Redirection'',
       '''')),
    (KInt 300, (''Multiple Choices'',
       ''A link list. The user can select a link and go to that location. Maximum five addresses'')),
    (KInt 301, (''Moved Permanently'',
       ''The requested page has moved to a new URL'')),
    (KInt 302, (''Found'',
       ''The requested page has moved temporarily to a new URL'')),
    (KInt 303, (''See Other'',
       ''The requested page can be found under a different URL'')),
    (KInt 304, (''Not Modified'',
       ''Indicates the requested page has not been modified since last requested'')),
    (KInt 306, (''Switch Proxy'',
       ''-- No longer used --'')),
    (KInt 307, (''Temporary Redirect'',
       ''The requested page has moved temporarily to a new URL'')),
    (KInt 308, (''Resume Incomplete'',
       ''Used in the resumable requests proposal to resume aborted PUT or POST requests'')),
    (KStr ''4'', (''Client Error'',
       '''')),
    (KInt 400, (''Bad Request'',
       ''The request cannot be fulfilled due to bad syntax'')),
    (KInt 401, (''Unauthorized'',
       ''The request was a legal request, but the server is refusing to respond to it. For use when authentication is possible but has failed or not yet been provided'')),
    (KInt 402, (''Payment Required'',
       ''-- Reserved for future use --'')),
    (KInt 403, (''Forbidden'',
       ''The request was a legal request, but the server is refusing to respond to it'')),
    (KInt 404, (''Not Found'',
       ''The requested page could not be found but may be available again in the future'')),
    (KInt 405, (''Method Not Allowed'',
       ''A request was made of a page using a request method not supported by that page'')),
    (KInt 406, (''Not Acceptable'',
       ''The server can only generate a response that is not accepted by the client'')),
    (KInt 407, (''Proxy Authentication Required'',
       ''The client must first authenticate itself with the proxy'')),
    (KInt 408, (''Request Timeout'',
       ''The server timed out waiting for the request'')),
    (KInt 409, (''Conflict'',
       ''The request could not be completed because of a conflict in the request'')),
    (KInt 410, (''Gone'',
       ''The requested page is no longer available'')),
    (KInt 411, (''Length Required'',
       ''The '' @ [CHR 0x22] @ ''Content-Length'' @ [CHR 0x22] @ '' is not defined. The server will not accept the request without it'')),
    (KInt 412, (''Precondition Failed'',
       ''The precondition given in the request evaluated to false by the server'')),
    (KInt 413, (''Request Entity Too Large'',
       ''The server will not accept the request, because the request entity is too large'')),
    (KInt 414, (''Request-URI Too Long'',
       ''The server will not accept the request, because the URL is too long. Occurs when you convert a POST request to a GET request with a long query information'')),
    (KInt 415, (''Unsupported Media Type'',
       ''The server will not accept the request, because the media type is not supported'')),
    (KInt 416, (''Requested Range Not Satisfiable'',
       ''The client has asked for a portion of the file, but the server cannot supply that portion'')),
    (KInt 417, (''Expectation Failed'',
       ''The server cannot meet the requirements of the Expect request-header field'')),
    (KInt 418, (''I'' @ [CHR 0x27] @ ''m a teapot'',
       ''Any attempt to brew coffee with a teapot should result in the error code '' @ [CHR 0x22] @ ''418 I'' @ [CHR 0x27] @ ''m a teapot'' @ [CHR 0x22] @ ''. The resulting entity body MAY be short and stout'')),
    (KInt 421, (''Misdirected Request'',
       ''The request was directed at a server that is not able to produce a response (for example because a connection reuse)'')),
    (KInt 422, (''Unprocessable Entity'',
       ''The request was well-formed but was unable to be followed due to semantic errors'')),
    (KInt 423, (''Locked'',
       ''The resource that is being accessed is locked'')),
    (KInt 424, (''Failed Dependency'',
       ''The request failed due to failure of a previous request (e.g., a PROPPATCH)'')),
    (KInt 426, (''Upgrade Required'',
       ''The client should switch to a different protocol such as TLS'' @ [CHR 0x5C] @ ''/1.0, given in the Upgrade header field'')),
    (KInt 428, (''Precondition Required'',
       ''The origin server requires the request to be conditional'')),
    (KInt 429, (''Too Many Requests'',
       ''The user has sent too many requests in a given amount of time. Intended for use with rate limiting schemes'')),
    (KInt 431, (''Request Header Fields Too Large'',
       ''The server is unwilling to process the request because either an individual header field, or all the header fields collectively, are too large'')),
    (KInt 451, (''Unavailable For Legal Reasons'',
       ''A server operator has received a legal demand to deny access to a resource or to a set of resources that includes the requested resource'')),
    (KStr ''5'', (''Server Error'',
       '''')),
    (KInt 500, (''Internal Server Error'',
       ''An error has occured in a server side script, a no more specific message is suitable'')),
    (KInt 501, (''Not Implemented'',
       ''The server either does not recognize the request method, or it lacks the ability to fulfill the request'')),
    (KInt 502, (''Bad Gateway'',
       ''The server was acting as a gateway or proxy and received an invalid response from the upstream server'')),
    (KInt 503, (''Service Unavailable'',
       ''The server is currently unavailable (overloaded or down)'')),
    (KInt 504, (''Gateway Timeout'',
       ''The server was acting as a gateway or proxy and did not receive a timely response from the upstream server'')),
    (KInt 505, (''HTTP Version Not Supported'',
       ''The server does not support the HTTP protocol version used in the request'')),
    (KInt 511, (''Network Authentication Required'',
       ''The client needs to authenticate to gain network access''))
]"

text \<open>\<^verbatim>\<open>statuses[k]\<close> raises \<^verbatim>\<open>KeyError\<close> when the key is absent; \<^verbatim>\<open>statuses.get(k, d)\<close>
  never raises.\<close>

definition statuses_getitem :: "key \<Rightarrow> exn + (string \<times> string)" where
  "statuses_getitem k =
     (case map_of statuses k of
        None \<Rightarrow> Inl (Error ''KeyError'' [])
      | Some p \<Rightarrow> Inr p)"

definition statuses_get :: "key \<Rightarrow> (string \<times> string) \<Rightarrow> (string \<times> string)" where
  "statuses_get k d = (case map_of statuses k of None \<Rightarrow> d | Some p \<Rightarrow> p)"

text \<open>The body of the \<^verbatim>\<open>try\<close> in \<^verbatim>\<open>getstatus\<close>. Python evaluates the arguments of \<^verbatim>\<open>get\<close>
  first, so \<^verbatim>\<open>statuses[str(code)[0]]\<close> is looked up (and may raise) before the code itself
  is.\<close>

definition getstatus_try :: "int \<Rightarrow> exn + (string \<times> string)" where
  "getstatus_try code =
     (case str_int code of
        [] \<Rightarrow> Inl (Error ''IndexError'' ''string index out of range'')
      | c # _ \<Rightarrow>
          (case statuses_getitem (KStr [c]) of
             Inl e \<Rightarrow> Inl e
           | Inr d \<Rightarrow> Inr (statuses_get (KInt code) d)))"

text \<open>The bare \<^verbatim>\<open>except\<close> turns every exception into the default pair.\<close>

definition getstatus :: "int \<Rightarrow> string \<times> string" where
  "getstatus code =
     (case getstatus_try code of
        Inl e \<Rightarrow> (''Unknown'', ''The meaning of this HTTP status is unknown.'')
      | Inr p \<Rightarrow> p)"

subsection \<open>Response\<close>

text \<open>A header value is a string, or the integer that \<^verbatim>\<open>__str__\<close> stores under
  \<^verbatim>\<open>content-length\<close>; \<^verbatim>\<open>'%s' % v\<close> formats either.\<close>

datatype hval = HStr string | HInt int

fun str_hval :: "hval \<Rightarrow> string" where
  "str_hval (HStr s) = s"
| "str_hval (HInt i) = str_int i"

record response =
  status :: int
  headers :: "(string \<times> hval) list"
  body :: string

text \<open>The class attribute \<^verbatim>\<open>Response.headers\<close>.\<close>

definition Response_headers :: "(string \<times> hval) list" where
  "Response_headers = [(''server'', HStr ''mhask/0.0.0''), (''content-type'', HStr ''text/plain'')]"

text \<open>\<^verbatim>\<open>filter(bool, xs)\<close> on strings keeps the non-empty ones.\<close>

definition filter_bool :: "string list \<Rightarrow> string list" where
  "filter_bool xs = filter (\<lambda>s. s \<noteq> []) xs"

text \<open>\<^verbatim>\<open>Response(body, status, headers)\<close>. The body is \<open>None\<close> or \<open>Some s\<close> with \<open>s\<close> the
  \<^verbatim>\<open>str\<close> of the object given; the status is an integer.\<close>

definition Response :: "string option \<Rightarrow> int \<Rightarrow> (string \<times> hval) list \<Rightarrow> response" where
  "Response b st hs =
     \<lparr> status = st,
       headers = dict_merge (dict_merge [] Response_headers) hs,
       body = (case b of
                 Some s \<Rightarrow> s
               | None \<Rightarrow> join '': '' (filter_bool
                   (str_int st # [fst (getstatus st), snd (getstatus st)]))) \<rparr>"

text \<open>\<^verbatim>\<open>Response.__str__\<close> stores the length of the body under \<^verbatim>\<open>content-length\<close> in the
  object's own headers and returns the text; the model returns the text and the object
  as it is afterwards.\<close>

definition header_line :: "string \<times> hval \<Rightarrow> string" where
  "header_line kv = fst kv @ '': '' @ str_hval (snd kv) @ CRLF"

definition Response_str :: "response \<Rightarrow> string \<times> response" where
  "Response_str self =
     (let self1 = self\<lparr>headers := dict_set (headers self) ''content-length''
                                    (HInt (int (length (body self))))\<rparr>;
          s = ''HTTP/1.0 '' @ str_int (status self1) @ '' '' @ fst (getstatus (status self1)) @ CRLF;
          s = s @ concat (map header_line (headers self1));
          s = s @ CRLF @ body self1 @ CRLF
      in (s, self1))"

text \<open>The transports send \<^verbatim>\<open>str(response).encode()\<close>: UTF-8, one byte for a code point below
  128 and two bytes for the others of the model's range.\<close>

definition encode_chr :: "char \<Rightarrow> nat list" where
  "encode_chr c =
     (let cp = (of_char c :: nat)
      in if cp < 128 then [cp] else [192 + cp div 64, 128 + cp mod 64])"

definition encode :: "string \<Rightarrow> nat list" where
  "encode s = concat (map encode_chr s)"

subsection \<open>Request\<close>

record request =
  "method" :: string
  path :: string
  protocol :: string
  req_headers :: "(string \<times> string) list"
  req_body :: string

text \<open>\<^verbatim>\<open>xs.index(x)\<close>: the first position of \<open>x\<close>; \<open>None\<close> stands for the \<^verbatim>\<open>ValueError\<close>.\<close>

fun index :: "'a list \<Rightarrow> 'a \<Rightarrow> nat option" where
  "index [] x = None"
| "index (y # ys) x = (if y = x then Some 0 else map_option Suc (index ys x))"

text \<open>The loop over the header lines: \<^verbatim>\<open>k, v = header.split(':', 1)\<close> raises when the line
  has no colon. The messages of the exceptions the interpreter raises are MicroPython's.\<close>

fun parse_headers :: "string list \<Rightarrow> (string \<times> string) list \<Rightarrow> exn + (string \<times> string) list" where
  "parse_headers [] hs = Inr hs"
| "parse_headers (header # rest) hs =
     (case split_once CHR '':'' header of
        [k, v] \<Rightarrow> parse_headers rest (dict_set hs (strip k) (strip v))
      | _ \<Rightarrow> Inl (Error ''ValueError'' ''need more than 1 values to unpack''))"

text \<open>\<^verbatim>\<open>Request(bites)\<close>, from the decoded text \<^verbatim>\<open>bites.decode()\<close> on.\<close>

definition Request :: "string \<Rightarrow> exn + request" where
  "Request text =
     (case splitlines text of
        [] \<Rightarrow> Inl (Error ''ValueError'' ''need more than 0 values to unpack'')
      | bang # content \<Rightarrow>
          (case split_ws bang of
             [m, p, pr] \<Rightarrow>
               (case index content [] of
                  None \<Rightarrow> Inl (Error ''ValueError'' ''object not in sequence'')
                | Some i \<Rightarrow>
                    (case parse_headers (take i content) [] of
                       Inl e \<Rightarrow> Inl e
                     | Inr hs \<Rightarrow>
                         Inr \<lparr> method = m, path = p, protocol = pr, req_headers = hs,
                               req_body = concat (drop (1 + i) content) \<rparr>))
           | ws \<Rightarrow>
               Inl (Error ''ValueError''
                     (if length ws < 3
                      then ''need more than '' @ str_nat (length ws) @ '' values to unpack''
                      else ''too many values to unpack''))))"

text \<open>\<^verbatim>\<open>str(e)\<close> of an exception built with one argument is that argument.\<close>

fun str_exn :: "exn \<Rightarrow> string" where
  "str_exn (HTTPException msg st) = msg"
| "str_exn (Error cls msg) = msg"

text \<open>\<^verbatim>\<open>Request.json\<close>. The codec \<^verbatim>\<open>ujson.loads\<close> is a parameter: it returns a value or
  raises.\<close>

definition Request_json :: "(string \<Rightarrow> exn + 'v) \<Rightarrow> request \<Rightarrow> bool \<Rightarrow> exn + 'v option" where
  "Request_json loads self failsafe =
     (case loads (req_body self) of
        Inr v \<Rightarrow> Inr (Some v)
      | Inl e \<Rightarrow>
          if failsafe then Inr None
          else Inl (HTTPException (''Invalid JSON ('' @ str_exn e @ '')'') 400))"

definition Request_str :: "request \<Rightarrow> string" where
  "Request_str self = method self @ '' '' @ path self"

subsection \<open>The regular expressions of \<^verbatim>\<open>ure\<close>\<close>

text \<open>
  \<^verbatim>\<open>ure\<close> is MicroPython's matcher; it works on the bytes of the UTF-8 text. The model
  covers the patterns made of literal bytes, \<^verbatim>\<open>.\<close>, the class \<^verbatim>\<open>[^/]\<close>, a star after one
  of these, a \<^verbatim>\<open>^\<close> in front and a \<^verbatim>\<open>$\<close> at the end: what \<^verbatim>\<open>resolve\<close> builds from a route
  whose literal segments hold no other special character. On any other pattern the model
  answers \<open>None\<close>: it does not say what the code does there.
\<close>

definition byte :: "char \<Rightarrow> nat" where
  "byte c = of_char c"

datatype atom = Lit nat | Any | NotSlash

datatype piece = One atom | Star atom | Eol

definition ure_special :: "nat \<Rightarrow> bool" where
  "ure_special b = (b \<in> byte ` set (CHR 0x5C # ''.[]()*+?|^${}''))"

text \<open>One atom at the head of the pattern, and the bytes after it.\<close>

definition ure_atom :: "nat list \<Rightarrow> (atom \<times> nat list) option" where
  "ure_atom bs =
     (case bs of
        [] \<Rightarrow> None
      | b # rest \<Rightarrow>
          if b = byte CHR ''.'' then Some (Any, rest)
          else if b = byte CHR ''['' then
            (if take 3 rest = map byte ''^/]'' then Some (NotSlash, drop 3 rest) else None)
          else if ure_special b then None
          else Some (Lit b, rest))"

function ure_pieces :: "nat list \<Rightarrow> piece list option" where
  "ure_pieces bs =
     (if bs = [] then Some []
      else if bs = [byte CHR ''$''] then Some [Eol]
      else
        (case ure_atom bs of
           None \<Rightarrow> None
         | Some (a, rest) \<Rightarrow>
             if rest \<noteq> [] \<and> hd rest = byte CHR ''*''
             then map_option ((#) (Star a)) (ure_pieces (tl rest))
             else map_option ((#) (One a)) (ure_pieces rest)))"
  by pat_completeness auto
termination
  by (relation "measure length")
     (auto simp: ure_atom_def split: list.splits if_splits)

declare ure_pieces.simps [simp del]

fun atom_ok :: "atom \<Rightarrow> nat \<Rightarrow> bool" where
  "atom_ok (Lit b) x = (x = b)"
| "atom_ok Any x = True"
| "atom_ok NotSlash x = (x \<noteq> byte CHR ''/'')"

text \<open>Does a prefix of the input match the pieces? (\<^verbatim>\<open>ure.match\<close> starts at the first byte
  and may stop before the last one; only \<^verbatim>\<open>$\<close> asks for the end.)\<close>

fun pieces_match :: "piece list \<Rightarrow> nat list \<Rightarrow> bool" where
  "pieces_match [] s = True"
| "pieces_match (Eol # ps) s = (s = [] \<and> pieces_match ps s)"
| "pieces_match (One a # ps) [] = False"
| "pieces_match (One a # ps) (x # xs) = (atom_ok a x \<and> pieces_match ps xs)"
| "pieces_match (Star a # ps) [] = pieces_match ps []"
| "pieces_match (Star a # ps) (x # xs) =
     ((atom_ok a x \<and> pieces_match (Star a # ps) xs) \<or> pieces_match ps (x # xs))"

text \<open>\<^verbatim>\<open>ure.match(pattern, s)\<close> as a truth value.\<close>

definition ure_match :: "string \<Rightarrow> string \<Rightarrow> bool option" where
  "ure_match pattern s =
     (let p = encode pattern;
          p = (if p \<noteq> [] \<and> hd p = byte CHR ''^'' then tl p else p)
      in map_option (\<lambda>ps. pieces_match ps (encode s)) (ure_pieces p))"

subsection \<open>App: routes and resolve\<close>

text \<open>
  A handler is called with the path arguments; it may read the current request of the
  application, which is its first parameter here. It returns a \<^verbatim>\<open>Response\<close>, or another
  object (\<open>None\<close>, or an object with the given \<^verbatim>\<open>str\<close>), or it raises.
\<close>

datatype hresult = Resp response | Val "string option"

datatype houtcome = Returns hresult | Raises raised

type_synonym arguments = "(string \<times> string) list"

type_synonym handler = "request \<Rightarrow> arguments \<Rightarrow> houtcome"

type_synonym endpoint = "(string \<times> string list) \<times> handler"

text \<open>\<^verbatim>\<open>sorted(items, key=lambda l: len(l[0][0]), reverse=True)\<close>: by the length of the route,
  longest first. Bindings whose routes have the same length keep the order of the
  dictionary here; MicroPython does not promise an order for them.\<close>

definition sorted_endpoints :: "endpoint list \<Rightarrow> endpoint list" where
  "sorted_endpoints items = rev (sort_key (\<lambda>l. length (fst (fst l))) (rev items))"

text \<open>The pattern built from a route.\<close>

definition route_pattern :: "string \<Rightarrow> string" where
  "route_pattern route =
     (let pattern = join ''/'' (map (\<lambda>c. replace c ('':'' @ drop 1 c) ''[^/].*'')
                                     (split_on CHR ''/'' route))
      in ''^'' @ pattern @ ''$'')"

text \<open>The loop that fills \<^verbatim>\<open>arguments\<close>; \<open>segs\<close> is \<^verbatim>\<open>request.path.split('/')\<close>, and
  \<^verbatim>\<open>segs[i]\<close> raises when \<open>i\<close> is out of range.\<close>

fun fill_arguments :: "(nat \<times> string) list \<Rightarrow> string list \<Rightarrow> arguments \<Rightarrow> exn + arguments" where
  "fill_arguments [] segs arguments = Inr arguments"
| "fill_arguments ((i, component) # rest) segs arguments =
     (if startswith component '':'' then
        (if i < length segs then
           (let val = segs ! i
            in if length val \<noteq> 0
               then fill_arguments rest segs (dict_set arguments (lstrip_chr CHR '':'' component) val)
               else fill_arguments rest segs arguments)
         else Inl (Error ''IndexError'' ''list index out of range''))
      else fill_arguments rest segs arguments)"

text \<open>The loop of \<^verbatim>\<open>resolve\<close> over the sorted bindings. \<open>None\<close>: a pattern outside the model
  of \<^verbatim>\<open>ure\<close> was reached.\<close>

type_synonym resolved = "string \<times> string list \<times> handler \<times> arguments"

fun resolve_loop :: "endpoint list \<Rightarrow> request \<Rightarrow> (exn + resolved) option" where
  "resolve_loop [] request =
     Some (Inl (HTTPException (''No route found for request '' @ Request_str request) 404))"
| "resolve_loop (((route, methods), callback) # rest) request =
     (if method request \<in> set methods then
        (case ure_match (route_pattern route) (path request) of
           None \<Rightarrow> None
         | Some True \<Rightarrow>
             (case fill_arguments (enumerate 0 (split_on CHR ''/'' route))
                     (split_on CHR ''/'' (path request)) [] of
                Inl e \<Rightarrow> Some (Inl e)
              | Inr arguments \<Rightarrow> Some (Inr (route, methods, callback, arguments)))
         | Some False \<Rightarrow> resolve_loop rest request)
      else resolve_loop rest request)"

text \<open>\<^verbatim>\<open>App.resolve\<close>, with the dictionary \<^verbatim>\<open>self.endpoints\<close> as a parameter.\<close>

definition resolve :: "endpoint list \<Rightarrow> request \<Rightarrow> (exn + resolved) option" where
  "resolve endpoints request = resolve_loop (sorted_endpoints endpoints) request"

subsection \<open>App: handle\<close>

text \<open>How the \<^verbatim>\<open>try\<close> statement of \<^verbatim>\<open>handle\<close> ends: with \<^verbatim>\<open>result\<close> bound, and possibly an
  exception that leaves the statement all the same (the bare \<^verbatim>\<open>raise\<close> under \<^verbatim>\<open>debug\<close>); or
  with an exception that no clause caught, \<^verbatim>\<open>result\<close> unbound.\<close>

datatype tried =
    Bound hresult "exn option"
  | Uncaught string string        \<comment> \<open>class name, message\<close>

text \<open>The clauses \<^verbatim>\<open>except HTTPException\<close> and \<^verbatim>\<open>except Exception\<close>, in this order. An
  exception that does not derive from \<^verbatim>\<open>Exception\<close> matches neither.\<close>

fun handle_except :: "bool \<Rightarrow> raised \<Rightarrow> tried" where
  "handle_except debug (Exc (HTTPException msg st)) =
     Bound (Resp (Response (Some msg) st [])) None"
| "handle_except debug (Exc (Error cls msg)) =
     Bound (Resp (Response (Some (cls @ '': '' @ msg)) 500 []))
       (if debug then Some (Error cls msg) else None)"
| "handle_except debug (BaseExc cls msg) = Uncaught cls msg"

text \<open>The \<^verbatim>\<open>try\<close> statement of \<^verbatim>\<open>handle\<close>, for the request just parsed.\<close>

definition handle_try :: "endpoint list \<Rightarrow> bool \<Rightarrow> request \<Rightarrow> tried option" where
  "handle_try endpoints debug request =
     (case resolve endpoints request of
        None \<Rightarrow> None
      | Some (Inl e) \<Rightarrow> Some (handle_except debug (Exc e))
      | Some (Inr (route, methods, callback, arguments)) \<Rightarrow>
          (case callback request arguments of
             Returns result \<Rightarrow> Some (Bound result None)
           | Raises e \<Rightarrow> Some (handle_except debug e)))"

text \<open>The rest of \<^verbatim>\<open>handle\<close>: an exception that left the \<^verbatim>\<open>try\<close> leaves \<^verbatim>\<open>handle\<close>; otherwise
  the result is wrapped into a \<^verbatim>\<open>Response\<close> unless it is one. The debug log line formats
  \<^verbatim>\<open>str(response)\<close>, which stores \<^verbatim>\<open>content-length\<close> in the response returned.\<close>

definition handle_request :: "endpoint list \<Rightarrow> bool \<Rightarrow> request \<Rightarrow> (raised + response) option" where
  "handle_request endpoints debug request =
     (case handle_try endpoints debug request of
        None \<Rightarrow> None
      | Some (Uncaught cls msg) \<Rightarrow> Some (Inl (BaseExc cls msg))
      | Some (Bound result (Some e)) \<Rightarrow> Some (Inl (Exc e))
      | Some (Bound result None) \<Rightarrow>
          (let response = (case result of Resp r \<Rightarrow> r | Val v \<Rightarrow> Response v 200 [])
           in Some (Inr (snd (Response_str response)))))"

text \<open>\<^verbatim>\<open>App.handle\<close>, with \<^verbatim>\<open>self.endpoints\<close> and \<^verbatim>\<open>self.debug\<close> as parameters and from the
  decoded text on. \<^verbatim>\<open>Request(bytes)\<close> is outside the \<^verbatim>\<open>try\<close>: its exceptions leave
  \<^verbatim>\<open>handle\<close>.\<close>

definition handle :: "endpoint list \<Rightarrow> bool \<Rightarrow> string \<Rightarrow> (raised + response) option" where
  "handle endpoints debug text =
     (case Request text of
        Inl e \<Rightarrow> Some (Inl (Exc e))
      | Inr request \<Rightarrow> handle_request endpoints debug request)"

subsection \<open>App objects and the class attribute \<^verbatim>\<open>endpoints\<close>\<close>

text \<open>
  The class body binds \<^verbatim>\<open>App.endpoints\<close> to one dictionary object. An \<^verbatim>\<open>App\<close> object starts
  with no attribute of its own; \<^verbatim>\<open>self.x\<close> reads the object's own attribute \<^verbatim>\<open>x\<close> when it has
  one and the class attribute otherwise. The store holds the dictionary objects by
  address, the address bound to the class attribute, and the own attributes of every
  \<^verbatim>\<open>App\<close> object (objects are numbered).
\<close>

type_synonym addr = nat

record app_object =
  own_endpoints :: "addr option"
  own_request :: "request option"
  own_debug :: "bool option"

record world =
  dicts :: "addr \<Rightarrow> endpoint list"
  App_endpoints :: addr
  apps :: "nat \<Rightarrow> app_object"

text \<open>The store after the module is loaded: the one dictionary is empty and no object
  has an attribute of its own.\<close>

definition initial_world :: world where
  "initial_world =
     \<lparr> dicts = (\<lambda>a. []), App_endpoints = 0,
       apps = (\<lambda>i. \<lparr> own_endpoints = None, own_request = None, own_debug = None \<rparr>) \<rparr>"

definition self_endpoints :: "world \<Rightarrow> nat \<Rightarrow> addr" where
  "self_endpoints w self =
     (case own_endpoints (apps w self) of None \<Rightarrow> App_endpoints w | Some a \<Rightarrow> a)"

definition self_debug :: "world \<Rightarrow> nat \<Rightarrow> bool" where
  "self_debug w self = (case own_debug (apps w self) of None \<Rightarrow> False | Some d \<Rightarrow> d)"

text \<open>\<^verbatim>\<open>self.route(route, methods)(f)\<close>: the item assignment goes to the dictionary that
  \<^verbatim>\<open>self.endpoints\<close> evaluates to; the key is \<^verbatim>\<open>(route, tuple(methods))\<close>.\<close>

definition App_route :: "world \<Rightarrow> nat \<Rightarrow> string \<Rightarrow> string list \<Rightarrow> handler \<Rightarrow> world" where
  "App_route w self route methods f =
     (let a = self_endpoints w self
      in w\<lparr>dicts := (dicts w)(a := dict_set (dicts w a) (route, methods) f)\<rparr>)"

definition App_resolve :: "world \<Rightarrow> nat \<Rightarrow> request \<Rightarrow> (exn + resolved) option" where
  "App_resolve w self request = resolve (dicts w (self_endpoints w self)) request"

text \<open>\<^verbatim>\<open>self.handle(bytes)\<close>: the result, and the store with \<^verbatim>\<open>self.request\<close> assigned when the
  request parses.\<close>

definition App_handle :: "world \<Rightarrow> nat \<Rightarrow> string \<Rightarrow> (raised + response) option \<times> world" where
  "App_handle w self text =
     (case Request text of
        Inl e \<Rightarrow> (Some (Inl (Exc e)), w)
      | Inr request \<Rightarrow>
          (handle_request (dicts w (self_endpoints w self)) (self_debug w self) request,
           w\<lparr>apps := (apps w)(self := (apps w self)\<lparr>own_request := Some request\<rparr>)\<rparr>))"

subsection \<open>Example data\<close>

text \<open>A request as a client sends it, and the \<^verbatim>\<open>Request\<close> it parses to.\<close>

definition example_text :: "string \<Rightarrow> string \<Rightarrow> string \<Rightarrow> string" where
  "example_text m p b = m @ '' '' @ p @ '' HTTP/1.1'' @ CRLF @ ''Host: x'' @ CRLF @ CRLF @ b"

definition example_request :: "string \<Rightarrow> string \<Rightarrow> string \<Rightarrow> request" where
  "example_request m p b =
     \<lparr> method = m, path = p, protocol = ''HTTP/1.1'', req_headers = [(''Host'', ''x'')],
       req_body = b \<rparr>"

text \<open>Handlers: one returns a string, one raises \<^verbatim>\<open>ValueError('bad id')\<close>, one raises
  \<^verbatim>\<open>SystemExit\<close> (as \<^verbatim>\<open>sys.exit()\<close> does).\<close>

definition hello_handler :: handler where
  "hello_handler request arguments = Returns (Val (Some ''Hello''))"

definition failing_handler :: handler where
  "failing_handler request arguments = Raises (Exc (Error ''ValueError'' ''bad id''))"

definition exiting_handler :: handler where
  "exiting_handler request arguments = Raises (BaseExc ''SystemExit'' [])"

definition exiting_endpoints :: "endpoint list" where
  "exiting_endpoints = [((''/x'', [''GET'']), exiting_handler)]"

definition example_endpoints :: "endpoint list" where
  "example_endpoints = [((''/'', [''GET'']), hello_handler), ((''/x'', [''GET'']), failing_handler)]"

text \<open>The two routes of the precedence example, in the order of registration.\<close>

definition users_endpoints :: "handler \<Rightarrow> handler \<Rightarrow> endpoint list" where
  "users_endpoints by_id profile =
     [((''/users/:id'', [''GET'']), by_id), ((''/users/profile'', [''GET'']), profile)]"

text \<open>A codec that knows one document.\<close>

definition example_loads :: "string \<Rightarrow> exn + unit" where
  "example_loads s =
     (if s = ''null'' then Inr () else Inl (Error ''ValueError'' ''syntax error in JSON''))"

section \<open>Properties\<close>

subsection \<open>Evaluation and basic facts\<close>

lemmas resolve_eval =
  resolve_def sorted_endpoints_def route_pattern_def replace_def replace_from.simps
  startswith_def ure_match_def encode_def encode_chr_def byte_def ure_pieces.simps ure_atom_def
  ure_special_def Request_str_def lstrip_chr_def

lemmas request_eval =
  Request_def split_ws_def isspace_def split_once_def strip_def

lemma status_Response [simp]: "status (Response b st hs) = st"
  by (simp add: Response_def)

lemma body_Response_Some [simp]: "body (Response (Some s) st hs) = s"
  by (simp add: Response_def)

lemma status_Response_str [simp]: "status (snd (Response_str r)) = status r"
  by (simp add: Response_str_def Let_def)

lemma body_Response_str [simp]: "body (snd (Response_str r)) = body r"
  by (simp add: Response_str_def Let_def)

lemma Request_example_text:
  "Request (example_text ''GET'' ''/x'' []) = Inr (example_request ''GET'' ''/x'' [])"
  by (simp add: example_text_def example_request_def request_eval)

subsection \<open>The status table\<close>

lemma statuses_class:
  "map_of statuses (KStr s) =
     (if s = ''1'' then Some (''Information'', [])
      else if s = ''2'' then Some (''Successful'', [])
      else if s = ''3'' then Some (''Redirection'', [])
      else if s = ''4'' then Some (''Client Error'', [])
      else if s = ''5'' then Some (''Server Error'', [])
      else None)"
  by (simp add: statuses_def)

lemma statuses_code_range:
  assumes "map_of statuses (KInt c) = Some p"
  shows "100 \<le> c \<and> c < 600"
proof -
  from assms have "(KInt c, p) \<in> set statuses"
    by (rule map_of_SomeD)
  then show ?thesis
    by (auto simp: statuses_def)
qed

lemma str_nat_nonempty: "str_nat n \<noteq> []"
  by (subst str_nat.simps) simp

lemma str_int_nonempty: "str_int i \<noteq> []"
  by (simp add: str_int_def str_nat_nonempty)

lemma str_nat_three_digits:
  assumes "100 \<le> n" and "n < 1000"
  shows "str_nat n = [digit (n div 100), digit (n div 10 mod 10), digit (n mod 10)]"
proof -
  have n1: "\<not> n < 10" and n2: "\<not> n div 10 < 10" and n3: "n div 10 div 10 < 10"
    using assms by arith+
  have d: "n div 10 div 10 = n div 100"
    by (simp add: div_mult2_eq [symmetric])
  have "str_nat n = str_nat (n div 10) @ [digit (n mod 10)]"
    using n1 str_nat.simps [of n] by simp
  also have "str_nat (n div 10) = str_nat (n div 10 div 10) @ [digit (n div 10 mod 10)]"
    using n2 str_nat.simps [of "n div 10"] by simp
  also have "str_nat (n div 10 div 10) = [digit (n div 10 div 10)]"
    using n3 str_nat.simps [of "n div 10 div 10"] by simp
  finally show ?thesis
    by (simp add: d)
qed

text \<open>Every code of the table has its class in the table.\<close>

lemma class_of_known_code:
  assumes "100 \<le> c" and "c < 600"
  shows "\<exists>d. map_of statuses (KStr (take 1 (str_int c))) = Some d"
proof -
  let ?n = "nat c"
  have n: "100 \<le> ?n" "?n < 600" using assms by simp_all
  then have s: "str_int c = [digit (?n div 100), digit (?n div 10 mod 10), digit (?n mod 10)]"
    using assms by (simp add: str_int_def str_nat_three_digits)
  have "1 \<le> ?n div 100" and "?n div 100 \<le> 5"
    using n by arith+
  then have "?n div 100 = 1 \<or> ?n div 100 = 2 \<or> ?n div 100 = 3 \<or> ?n div 100 = 4 \<or> ?n div 100 = 5"
    by arith
  then show ?thesis
    by (auto simp: s statuses_class digit_def)
qed

lemma statuses_460: "map_of statuses (KInt 460) = None"
  by (simp add: statuses_def)

lemma statuses_600: "map_of statuses (KInt 600) = None"
  using statuses_code_range [of 600] by (cases "map_of statuses (KInt 600)") auto

text \<open>
  C9. For every status code, \<^verbatim>\<open>getstatus\<close> returns a pair: the entry of the code when the
  table has one, otherwise the entry of the class named by the first character of the
  code, otherwise the pair for an unknown status. The exceptions of the lookups inside
  never leave it.
\<close>

theorem getstatus_fallback:
  "getstatus code =
     (case map_of statuses (KInt code) of
        Some p \<Rightarrow> p
      | None \<Rightarrow>
          (case map_of statuses (KStr (take 1 (str_int code))) of
             Some d \<Rightarrow> d
           | None \<Rightarrow> (''Unknown'', ''The meaning of this HTTP status is unknown.'')))"
proof (cases "str_int code")
  case Nil
  then show ?thesis by (simp add: str_int_nonempty)
next
  case (Cons c cs)
  show ?thesis
  proof (cases "map_of statuses (KInt code)")
    case None
    then show ?thesis
      by (simp add: getstatus_def getstatus_try_def statuses_getitem_def statuses_get_def Cons
          split: option.splits)
  next
    case (Some p)
    then obtain d where "map_of statuses (KStr (take 1 (str_int code))) = Some d"
      using class_of_known_code statuses_code_range by blast
    with Some show ?thesis
      by (simp add: getstatus_def getstatus_try_def statuses_getitem_def statuses_get_def Cons)
  qed
qed

theorem getstatus_fallback_witness:
  "getstatus 460 = (''Client Error'', []) \<and>
   getstatus 600 = (''Unknown'', ''The meaning of this HTTP status is unknown.'')"
  using getstatus_fallback [of 460] getstatus_fallback [of 600]
  by (simp add: statuses_460 statuses_600 statuses_class str_int_def str_nat_three_digits digit_def)

subsection \<open>Request.json\<close>

text \<open>
  C8. With \<^verbatim>\<open>failsafe=True\<close>, \<^verbatim>\<open>Request.json\<close> never raises and returns \<^verbatim>\<open>None\<close> when the codec
  rejects the body; with \<^verbatim>\<open>failsafe=False\<close> it then raises an \<^verbatim>\<open>HTTPException\<close> of status 400
  whose message holds the message of the codec's error.
\<close>

theorem Request_json_failsafe:
  "(\<forall>e. Request_json loads r True \<noteq> Inl e) \<and>
   (loads (req_body r) = Inl err \<longrightarrow>
      Request_json loads r True = Inr None \<and>
      Request_json loads r False =
        Inl (HTTPException (''Invalid JSON ('' @ str_exn err @ '')'') 400))"
  by (simp add: Request_json_def split: sum.splits)

theorem Request_json_failsafe_witness:
  "example_loads (req_body (example_request ''PUT'' ''/'' ''not json'')) =
     Inl (Error ''ValueError'' ''syntax error in JSON'') \<and>
   Request_json example_loads (example_request ''PUT'' ''/'' ''not json'') True = Inr None \<and>
   Request_json example_loads (example_request ''PUT'' ''/'' ''not json'') False =
     Inl (HTTPException ''Invalid JSON (syntax error in JSON)'' 400)"
  using Request_json_failsafe [of example_loads "example_request ''PUT'' ''/'' ''not json''"
      "Error ''ValueError'' ''syntax error in JSON''"]
  by (simp add: example_loads_def example_request_def)

subsection \<open>handle\<close>

lemma resolve_example_x:
  "resolve example_endpoints (example_request ''GET'' ''/x'' []) =
     Some (Inr (''/x'', [''GET''], failing_handler, []))"
  by (simp add: example_endpoints_def example_request_def resolve_eval)

text \<open>
  C7, as the code has it. When the handler chosen for a request raises an exception that
  derives from \<^verbatim>\<open>Exception\<close> and is not an \<^verbatim>\<open>HTTPException\<close>, the \<^verbatim>\<open>try\<close> statement of \<^verbatim>\<open>handle\<close>
  binds a \<^verbatim>\<open>Response\<close> of status 500 with the body \<^verbatim>\<open>"<class>: <message>"\<close>; without \<^verbatim>\<open>debug\<close>,
  \<^verbatim>\<open>handle\<close> returns it, and with \<^verbatim>\<open>debug\<close> the exception leaves \<^verbatim>\<open>handle\<close> after this response
  was built.
\<close>

theorem handle_other_failure:
  assumes "Request text = Inr request"
    and "resolve endpoints request = Some (Inr (route, methods, callback, arguments))"
    and "callback request arguments = Raises (Exc (Error cls msg))"
  shows "(\<exists>r. handle_try endpoints debug request =
              Some (Bound (Resp r) (if debug then Some (Error cls msg) else None)) \<and>
            status r = 500 \<and> body r = cls @ '': '' @ msg) \<and>
         (\<not> debug \<longrightarrow> (\<exists>r. handle endpoints debug text = Some (Inr r) \<and>
            status r = 500 \<and> body r = cls @ '': '' @ msg)) \<and>
         (debug \<longrightarrow> handle endpoints debug text = Some (Inl (Exc (Error cls msg))))"
  using assms by (simp add: handle_def handle_request_def handle_try_def)

theorem handle_other_failure_witness:
  "Request (example_text ''GET'' ''/x'' []) = Inr (example_request ''GET'' ''/x'' []) \<and>
   resolve example_endpoints (example_request ''GET'' ''/x'' []) =
     Some (Inr (''/x'', [''GET''], failing_handler, [])) \<and>
   failing_handler (example_request ''GET'' ''/x'' []) [] =
     Raises (Exc (Error ''ValueError'' ''bad id'')) \<and>
   (\<exists>r. handle example_endpoints False (example_text ''GET'' ''/x'' []) = Some (Inr r) \<and>
        status r = 500 \<and> body r = ''ValueError: bad id'') \<and>
   handle example_endpoints True (example_text ''GET'' ''/x'' []) =
     Some (Inl (Exc (Error ''ValueError'' ''bad id'')))"
proof -
  have f: "failing_handler (example_request ''GET'' ''/x'' []) [] =
             Raises (Exc (Error ''ValueError'' ''bad id''))"
    by (simp add: failing_handler_def)
  show ?thesis
    using handle_other_failure [OF Request_example_text resolve_example_x f, of False]
      handle_other_failure [OF Request_example_text resolve_example_x f, of True]
      Request_example_text resolve_example_x f
    by simp
qed

text \<open>An exception that does not derive from \<^verbatim>\<open>Exception\<close> is caught by neither clause: it
  leaves \<^verbatim>\<open>handle\<close>, with or without \<^verbatim>\<open>debug\<close>, and no \<^verbatim>\<open>Response\<close> is built.\<close>

lemma handle_base_exception:
  assumes "Request text = Inr request"
    and "resolve endpoints request = Some (Inr (route, methods, callback, arguments))"
    and "callback request arguments = Raises (BaseExc cls msg)"
  shows "handle_try endpoints debug request = Some (Uncaught cls msg)"
    and "handle endpoints debug text = Some (Inl (BaseExc cls msg))"
  using assms by (simp_all add: handle_def handle_request_def handle_try_def)

lemma resolve_exiting_x:
  "resolve exiting_endpoints (example_request ''GET'' ''/x'' []) =
     Some (Inr (''/x'', [''GET''], exiting_handler, []))"
  by (simp add: exiting_endpoints_def example_request_def resolve_eval)

text \<open>
  C7, as the specification states it, fails: a handler that raises \<^verbatim>\<open>SystemExit\<close>, which is
  not an \<^verbatim>\<open>HTTPException\<close>, gets no \<^verbatim>\<open>Response\<close> of status 500. With \<^verbatim>\<open>debug\<close> off, \<^verbatim>\<open>handle\<close>
  returns nothing: the exception leaves it.
\<close>

theorem handle_system_exit_escapes:
  "exiting_handler (example_request ''GET'' ''/x'' []) [] = Raises (BaseExc ''SystemExit'' []) \<and>
   handle exiting_endpoints False (example_text ''GET'' ''/x'' []) =
     Some (Inl (BaseExc ''SystemExit'' [])) \<and>
   \<not> (\<exists>r. handle exiting_endpoints False (example_text ''GET'' ''/x'' []) = Some (Inr r))"
proof -
  have f: "exiting_handler (example_request ''GET'' ''/x'' []) [] =
             Raises (BaseExc ''SystemExit'' [])"
    by (simp add: exiting_handler_def)
  show ?thesis
    using handle_base_exception(2) [OF Request_example_text resolve_exiting_x f, of False] f
    by simp
qed

lemma set_sorted_endpoints [simp]: "set (sorted_endpoints es) = set es"
  by (simp add: sorted_endpoints_def)

lemma resolve_loop_no_match:
  assumes "\<forall>((route, methods), callback) \<in> set es.
             method request \<in> set methods \<longrightarrow>
             ure_match (route_pattern route) (path request) = Some False"
  shows "resolve_loop es request =
           Some (Inl (HTTPException (''No route found for request '' @ Request_str request) 404))"
  using assms by (induction es request rule: resolve_loop.induct) auto

lemma Request_example_nope:
  "Request (example_text ''GET'' ''/nope'' []) = Inr (example_request ''GET'' ''/nope'' [])"
  by (simp add: example_text_def example_request_def request_eval)

text \<open>
  C6. When every binding either does not list the method of the request or has a pattern
  that does not match its path, \<^verbatim>\<open>resolve\<close> raises an \<^verbatim>\<open>HTTPException\<close> of status 404, and
  \<^verbatim>\<open>handle\<close> returns a \<^verbatim>\<open>Response\<close> of status 404 whose body is the message
  \<^verbatim>\<open>"No route found for request <method> <path>"\<close>.
\<close>

theorem unmatched_request_404:
  assumes "\<forall>((route, methods), callback) \<in> set endpoints.
             method request \<in> set methods \<longrightarrow>
             ure_match (route_pattern route) (path request) = Some False"
  shows "resolve endpoints request =
           Some (Inl (HTTPException
             (''No route found for request '' @ method request @ '' '' @ path request) 404)) \<and>
         (Request text = Inr request \<longrightarrow>
            (\<exists>r. handle endpoints debug text = Some (Inr r) \<and> status r = 404 \<and>
                 body r = ''No route found for request '' @ method request @ '' '' @ path request))"
proof -
  have "resolve endpoints request =
          Some (Inl (HTTPException (''No route found for request '' @ Request_str request) 404))"
    unfolding resolve_def by (rule resolve_loop_no_match) (use assms in simp)
  then show ?thesis
    by (simp add: handle_def handle_request_def handle_try_def Request_str_def)
qed

theorem unmatched_request_404_witness:
  "ure_match (route_pattern ''/'') ''/nope'' = Some False \<and>
   ure_match (route_pattern ''/x'') ''/nope'' = Some False \<and>
   resolve example_endpoints (example_request ''GET'' ''/nope'' []) =
     Some (Inl (HTTPException ''No route found for request GET /nope'' 404)) \<and>
   (\<exists>r. handle example_endpoints False (example_text ''GET'' ''/nope'' []) = Some (Inr r) \<and>
        status r = 404 \<and> body r = ''No route found for request GET /nope'')"
proof -
  have a: "ure_match (route_pattern ''/'') ''/nope'' = Some False"
    by (simp add: resolve_eval)
  have b: "ure_match (route_pattern ''/x'') ''/nope'' = Some False"
    by (simp add: resolve_eval)
  have h: "\<forall>((route, methods), callback) \<in> set example_endpoints.
             method (example_request ''GET'' ''/nope'' []) \<in> set methods \<longrightarrow>
             ure_match (route_pattern route) (path (example_request ''GET'' ''/nope'' [])) = Some False"
    using a b by (simp add: example_endpoints_def example_request_def)
  show ?thesis
    using unmatched_request_404 [OF h, of "example_text ''GET'' ''/nope'' []" False]
      Request_example_nope a b
    by (simp add: example_request_def)
qed

subsection \<open>Response.__str__\<close>

lemma statuses_404:
  "map_of statuses (KInt 404) =
     Some (''Not Found'',
           ''The requested page could not be found but may be available again in the future'')"
  by (simp add: statuses_def)

lemma statuses_200:
  "map_of statuses (KInt 200) =
     Some (''OK'',
           ''The request is OK (this is the standard response for successful HTTP requests)'')"
  by (simp add: statuses_def)

lemmas getstatus_eval =
  getstatus_def getstatus_try_def statuses_getitem_def statuses_get_def statuses_class
  str_int_def str_nat_three_digits digit_def

lemma getstatus_200: "fst (getstatus 200) = ''OK''"
  by (simp add: getstatus_eval statuses_200)

lemma getstatus_404: "fst (getstatus 404) = ''Not Found''"
  by (simp add: getstatus_eval statuses_404)

text \<open>
  C1, as the code has it. The text that \<^verbatim>\<open>Response.__str__\<close> returns begins with the status
  line \<^verbatim>\<open>"HTTP/1.0 <status> <name>\r\n"\<close>, where the name is the first component of
  \<^verbatim>\<open>getstatus\<close> of the status: the protocol token is \<^verbatim>\<open>HTTP/1.0\<close>.
\<close>

theorem Response_str_status_line:
  "\<exists>rest. fst (Response_str r) =
     ''HTTP/1.0 '' @ str_int (status r) @ '' '' @ fst (getstatus (status r)) @ CRLF @ rest"
  by (simp add: Response_str_def Let_def)

theorem Response_str_status_line_witness:
  "take 24 (fst (Response_str (Response None 404 []))) = ''HTTP/1.0 404 Not Found'' @ CRLF"
  using Response_str_status_line [of "Response None 404 []"]
  by (auto simp: getstatus_404 str_int_def str_nat_three_digits digit_def)

text \<open>
  C1, as the specification states it, fails: the text rendered for \<^verbatim>\<open>Response()\<close> does not
  begin with the status line \<^verbatim>\<open>"HTTP/1.1 200 OK\r\n"\<close>.
\<close>

theorem Response_str_not_http_1_1:
  "\<not> (\<exists>rest. fst (Response_str (Response None 200 [])) =
     ''HTTP/1.1 '' @ str_int 200 @ '' '' @ fst (getstatus 200) @ CRLF @ rest)"
  by (simp add: Response_str_def Let_def)

text \<open>What \<^verbatim>\<open>__str__\<close> stores and writes, for every response, whatever was assigned to
  its fields before: the header \<^verbatim>\<open>content-length\<close> holds \<^verbatim>\<open>len(self.body)\<close>, the number of
  characters of the body. That is the number of bytes sent when the body is ASCII.\<close>

lemma map_of_dict_set: "map_of (dict_set d k v) k = Some v"
  by (induction d k v rule: dict_set.induct) auto

lemma Response_str_content_length:
  "map_of (headers (snd (Response_str r))) ''content-length'' =
     Some (HInt (int (length (body r))))"
  by (simp add: Response_str_def Let_def map_of_dict_set)

lemma Response_str_layout:
  "fst (Response_str r) =
     ''HTTP/1.0 '' @ str_int (status r) @ '' '' @ fst (getstatus (status r)) @ CRLF @
     concat (map header_line (headers (snd (Response_str r)))) @ CRLF @ body r @ CRLF"
  by (simp add: Response_str_def Let_def)

lemma length_encode_ascii:
  assumes "\<forall>c \<in> set s. (of_char c :: nat) < 128"
  shows "length (encode s) = length s"
  using assms by (induction s) (simp_all add: encode_def encode_chr_def)

text \<open>
  C4 at the body \<^verbatim>\<open>'\xe9'\<close> (one character, U+00E9): the text rendered says
  \<^verbatim>\<open>content-length: 1\<close>, and the transports send the body as two bytes.
\<close>

theorem content_length_counts_characters:
  "map_of (headers (snd (Response_str (Response (Some [CHR 0xE9]) 200 [])))) ''content-length'' =
     Some (HInt 1) \<and>
   ''content-length: 1'' @ CRLF \<in>
     set (map header_line (headers (snd (Response_str (Response (Some [CHR 0xE9]) 200 []))))) \<and>
   fst (Response_str (Response (Some [CHR 0xE9]) 200 [])) =
     ''HTTP/1.0 200 OK'' @ CRLF @
     concat (map header_line (headers (snd (Response_str (Response (Some [CHR 0xE9]) 200 []))))) @
     CRLF @ [CHR 0xE9] @ CRLF \<and>
   length (encode [CHR 0xE9]) = 2"
  by (simp add: Response_str_def Response_def Response_headers_def dict_merge_def header_line_def
      getstatus_200 str_int_def str_nat_three_digits str_nat.simps digit_def
      encode_def encode_chr_def)

subsection \<open>Route patterns\<close>

text \<open>
  C2 at the route \<^verbatim>\<open>/users/:id\<close> and the path \<^verbatim>\<open>/users/1/extra\<close>: the pattern built from the
  route matches the path, which has one segment more, and \<^verbatim>\<open>resolve\<close> returns the binding
  with \<^verbatim>\<open>id\<close> bound to \<^verbatim>\<open>1\<close>.
\<close>

theorem wildcard_crosses_segments:
  "ure_match (route_pattern ''/users/:id'') ''/users/1/extra'' = Some True \<and>
   resolve [((''/users/:id'', [''GET'']), hello_handler)]
       (example_request ''GET'' ''/users/1/extra'' []) =
     Some (Inr (''/users/:id'', [''GET''], hello_handler, [(''id'', ''1'')]))"
  by (simp add: example_request_def resolve_eval)

subsection \<open>The order of resolve\<close>

lemma sorted_sorted_endpoints:
  "sorted_wrt (\<lambda>x y. length (fst (fst y)) \<le> length (fst (fst x))) (sorted_endpoints es)"
proof -
  have "sorted (map (\<lambda>l. length (fst (fst l))) (sort_key (\<lambda>l. length (fst (fst l))) (rev es)))"
    by (rule sorted_sort_key)
  then have "sorted_wrt (\<lambda>x y. length (fst (fst x)) \<le> length (fst (fst y)))
               (sort_key (\<lambda>l. length (fst (fst l))) (rev es))"
    by (simp add: sorted_wrt_map)
  then show ?thesis
    by (simp add: sorted_endpoints_def sorted_wrt_rev)
qed

lemma mset_sorted_endpoints: "mset (sorted_endpoints es) = mset es"
  by (simp add: sorted_endpoints_def)

lemma resolve_loop_first:
  assumes "\<forall>((r, ms), cb) \<in> set pre.
             method request \<notin> set ms \<or> ure_match (route_pattern r) (path request) = Some False"
    and "method request \<in> set methods"
    and "ure_match (route_pattern route) (path request) = Some True"
  shows "resolve_loop (pre @ ((route, methods), callback) # post) request =
           Some (case fill_arguments (enumerate 0 (split_on CHR ''/'' route))
                        (split_on CHR ''/'' (path request)) [] of
                   Inl e \<Rightarrow> Inl e
                 | Inr arguments \<Rightarrow> Inr (route, methods, callback, arguments))"
  using assms
proof (induction pre)
  case Nil
  then show ?case by (simp split: sum.splits)
next
  case (Cons e pre)
  obtain r ms cb where e: "e = ((r, ms), cb)"
    by (metis prod.exhaust)
  from Cons.prems(1) have "method request \<notin> set ms \<or> ure_match (route_pattern r) (path request) = Some False"
    by (simp add: e)
  moreover have "resolve_loop (pre @ ((route, methods), callback) # post) request = 
       Some (case fill_arguments (enumerate 0 (split_on CHR ''/'' route))
                        (split_on CHR ''/'' (path request)) [] of
                   Inl e \<Rightarrow> Inl e
                 | Inr arguments \<Rightarrow> Inr (route, methods, callback, arguments))"
    using Cons by simp
  ultimately show ?case
    by (auto simp: e)
qed

text \<open>Facts about the encoding and the matcher.\<close>

lemma encode_append: "encode (a @ b) = encode a @ encode b"
  by (simp add: encode_def)

lemma encode_chr_inj:
  assumes "encode_chr c @ xs = encode_chr d @ ys"
  shows "c = d \<and> xs = ys"
proof -
  have c: "(of_char c :: nat) < 256" and d: "(of_char d :: nat) < 256"
    by (metis of_char_mod_256 mod_less_divisor zero_less_numeral)+
  show ?thesis
  proof (cases "(of_char c :: nat) < 128"; cases "(of_char d :: nat) < 128")
    assume "(of_char c :: nat) < 128" "(of_char d :: nat) < 128"
    with assms show ?thesis by (simp add: encode_chr_def Let_def)
  next
    assume "(of_char c :: nat) < 128" "\<not> (of_char d :: nat) < 128"
    with assms show ?thesis by (simp add: encode_chr_def Let_def)
  next
    assume "\<not> (of_char c :: nat) < 128" "(of_char d :: nat) < 128"
    with assms show ?thesis by (simp add: encode_chr_def Let_def)
  next
    assume a: "\<not> (of_char c :: nat) < 128" "\<not> (of_char d :: nat) < 128"
    with assms have "(of_char c :: nat) div 64 = of_char d div 64"
      and "(of_char c :: nat) mod 64 = of_char d mod 64" and "xs = ys"
      by (simp_all add: encode_chr_def Let_def)
    then have "(of_char c :: nat) = of_char d"
      by (metis div_mult_mod_eq)
    then show ?thesis using \<open>xs = ys\<close> by simp
  qed
qed

lemma encode_chr_nonempty: "encode_chr c \<noteq> []"
  by (simp add: encode_chr_def Let_def)

lemma encode_inj: "encode a = encode b \<Longrightarrow> a = b"
proof (induction a arbitrary: b)
  case Nil
  then show ?case
    by (cases b) (simp_all add: encode_def encode_chr_nonempty)
next
  case (Cons c cs)
  show ?case
  proof (cases b)
    case Nil
    with Cons.prems show ?thesis by (simp add: encode_def encode_chr_nonempty)
  next
    case (Cons d ds)
    with Cons.prems have "encode_chr c @ encode cs = encode_chr d @ encode ds"
      by (simp add: encode_def)
    then have "c = d" and "encode cs = encode ds"
      using encode_chr_inj by blast+
    with Cons.IH Cons show ?thesis by simp
  qed
qed

lemma literal_pieces_match:
  "pieces_match (map (\<lambda>b. One (Lit b)) bs @ [Eol]) xs = (xs = bs)"
proof (induction bs arbitrary: xs)
  case Nil
  then show ?case by simp
next
  case (Cons b bs)
  then show ?case by (cases xs) auto
qed

lemma star_any_matches: "pieces_match [Star Any, Eol] xs"
  by (induction xs) simp_all

lemma split_on_absent: "sep \<notin> set s \<Longrightarrow> split_on sep s = [s]"
  by (induction s) auto

lemma hd_encode_not_slash:
  assumes "v \<noteq> []" and "hd v \<noteq> CHR ''/''"
  shows "\<exists>x xs. encode v = x # xs \<and> x \<noteq> byte CHR ''/''"
proof (cases v)
  case Nil
  with assms show ?thesis by simp
next
  case (Cons c cs)
  with assms have "c \<noteq> CHR ''/''" by simp
  then have "(of_char c :: nat) \<noteq> of_char CHR ''/''"
    by (simp only: of_char_eq_iff not_False_eq_True)
  then show ?thesis
    by (auto simp: Cons encode_def encode_chr_def byte_def Let_def)
qed

lemma users_id_pattern_matches:
  assumes "v \<noteq> []" and "hd v \<noteq> CHR ''/''"
  shows "ure_match (route_pattern ''/users/:id'') (''/users/'' @ v) = Some True"
proof -
  obtain x xs where e: "encode v = x # xs" "x \<noteq> byte CHR ''/''"
    using hd_encode_not_slash [OF assms] by blast
  have "encode (''/users/'' @ v) = encode ''/users/'' @ encode v"
    by (rule encode_append)
  then show ?thesis
    using e star_any_matches [of xs]
    by (simp add: resolve_eval)
qed

lemma users_profile_pattern_matches:
  "ure_match (route_pattern ''/users/profile'') (''/users/'' @ v) = Some (v = ''profile'')"
proof -
  have p: "encode (''/users/'' @ v) = encode ''/users/'' @ encode v"
    by (rule encode_append)
  have "pieces_match (map (\<lambda>b. One (Lit b)) (encode ''profile'') @ [Eol]) (encode v) = (encode v = encode ''profile'')"
    by (rule literal_pieces_match)
  moreover have "(encode v = encode ''profile'') = (v = ''profile'')"
    using encode_inj by blast
  ultimately show ?thesis
    using p by (simp add: resolve_eval)
qed


lemma resolve_users_profile:
  "resolve (users_endpoints by_id profile) (example_request ''GET'' ''/users/profile'' []) =
     Some (Inr (''/users/profile'', [''GET''], profile, []))"
  by (simp add: users_endpoints_def example_request_def resolve_eval)

lemma resolve_users_profile_rev:
  "resolve (rev (users_endpoints by_id profile)) (example_request ''GET'' ''/users/profile'' []) =
     Some (Inr (''/users/profile'', [''GET''], profile, []))"
  by (simp add: users_endpoints_def example_request_def resolve_eval)

lemma resolve_users_other:
  assumes "v \<noteq> []" and "CHR ''/'' \<notin> set v" and "v \<noteq> ''profile''"
  shows "resolve (users_endpoints by_id profile) (example_request ''GET'' (''/users/'' @ v) []) =
           Some (Inr (''/users/:id'', [''GET''], by_id, [(''id'', v)]))"
proof -
  define req where "req = example_request ''GET'' (''/users/'' @ v) []"
  have p: "path req = ''/users/'' @ v" and m: "method req = ''GET''"
    by (simp_all add: req_def example_request_def)
  have s: "sorted_endpoints (users_endpoints by_id profile) =
             [((''/users/profile'', [''GET'']), profile)] @
             ((''/users/:id'', [''GET'']), by_id) # []"
    by (simp add: users_endpoints_def sorted_endpoints_def)
  have h: "hd v \<noteq> CHR ''/''"
    using assms(1,2) by (cases v) auto
  have 1: "\<forall>((r, ms), cb) \<in> set [((''/users/profile'', [''GET'']), profile)].
             method req \<notin> set ms \<or> ure_match (route_pattern r) (path req) = Some False"
    unfolding p using users_profile_pattern_matches [of v] assms(3) by simp
  have 2: "ure_match (route_pattern ''/users/:id'') (path req) = Some True"
    unfolding p by (rule users_id_pattern_matches [OF assms(1) h])
  have 3: "fill_arguments (enumerate 0 (split_on CHR ''/'' ''/users/:id''))
             (split_on CHR ''/'' (path req)) [] = Inr [(''id'', v)]"
    unfolding p using assms(1,2) by (simp add: split_on_absent startswith_def lstrip_chr_def)
  have 4: "method req \<in> set [''GET'']"
    by (simp add: m)
  show ?thesis
    unfolding resolve_def s req_def [symmetric]
    by (simp only: resolve_loop_first [OF 1 4 2] 3 sum.case)
qed

text \<open>
  C5. \<^verbatim>\<open>resolve\<close> goes through the bindings sorted by the length of the route, longest
  first (the sorted list holds the same bindings), and its loop, on the bindings in any
  order \<open>es\<close>, returns the first binding whose methods hold the method of the request and
  whose pattern matches the path, with the arguments filled from the path. With \<^verbatim>\<open>/users/:id\<close> and \<^verbatim>\<open>/users/profile\<close> registered for
  \<^verbatim>\<open>GET\<close>, in either order, \<^verbatim>\<open>GET /users/profile\<close> resolves to \<^verbatim>\<open>/users/profile\<close>, and
  \<^verbatim>\<open>GET /users/<v>\<close> for any other non-empty \<^verbatim>\<open>v\<close> without a slash resolves to \<^verbatim>\<open>/users/:id\<close>
  with \<^verbatim>\<open>id\<close> bound to \<^verbatim>\<open>v\<close>.
\<close>

theorem resolve_longest_first:
  "sorted_wrt (\<lambda>x y. length (fst (fst y)) \<le> length (fst (fst x))) (sorted_endpoints endpoints) \<and>
   mset (sorted_endpoints endpoints) = mset endpoints \<and>
   resolve endpoints request = resolve_loop (sorted_endpoints endpoints) request \<and>
   (es = pre @ ((route, methods), callback) # post \<and>
    (\<forall>((r, ms), cb) \<in> set pre.
        method request \<notin> set ms \<or> ure_match (route_pattern r) (path request) = Some False) \<and>
    method request \<in> set methods \<and>
    ure_match (route_pattern route) (path request) = Some True \<longrightarrow>
      resolve_loop es request =
        Some (case fill_arguments (enumerate 0 (split_on CHR ''/'' route))
                     (split_on CHR ''/'' (path request)) [] of
                Inl e \<Rightarrow> Inl e
              | Inr arguments \<Rightarrow> Inr (route, methods, callback, arguments))) \<and>
   resolve (users_endpoints by_id profile) (example_request ''GET'' ''/users/profile'' []) =
     Some (Inr (''/users/profile'', [''GET''], profile, [])) \<and>
   resolve (rev (users_endpoints by_id profile)) (example_request ''GET'' ''/users/profile'' []) =
     Some (Inr (''/users/profile'', [''GET''], profile, [])) \<and>
   (v \<noteq> [] \<and> CHR ''/'' \<notin> set v \<and> v \<noteq> ''profile'' \<longrightarrow>
      resolve (users_endpoints by_id profile) (example_request ''GET'' (''/users/'' @ v) []) =
        Some (Inr (''/users/:id'', [''GET''], by_id, [(''id'', v)])))"
proof -
  have "resolve_loop es request =
          Some (case fill_arguments (enumerate 0 (split_on CHR ''/'' route))
                       (split_on CHR ''/'' (path request)) [] of
                  Inl e \<Rightarrow> Inl e
                | Inr arguments \<Rightarrow> Inr (route, methods, callback, arguments))"
    if "es = pre @ ((route, methods), callback) # post"
      and "\<forall>((r, ms), cb) \<in> set pre.
             method request \<notin> set ms \<or> ure_match (route_pattern r) (path request) = Some False"
      and "method request \<in> set methods"
      and "ure_match (route_pattern route) (path request) = Some True"
    unfolding that(1) by (rule resolve_loop_first [OF that(2-4)])
  then show ?thesis
    using sorted_sorted_endpoints mset_sorted_endpoints resolve_users_profile
      resolve_users_profile_rev resolve_users_other resolve_def
    by blast
qed

theorem resolve_longest_first_witness:
  "sorted_endpoints (users_endpoints hello_handler failing_handler) =
     [] @ ((''/users/profile'', [''GET'']), failing_handler) #
       [((''/users/:id'', [''GET'']), hello_handler)] \<and>
   method (example_request ''GET'' ''/users/profile'' []) \<in> set [''GET''] \<and>
   ure_match (route_pattern ''/users/profile'') (path (example_request ''GET'' ''/users/profile'' [])) =
     Some True \<and>
   resolve (users_endpoints hello_handler failing_handler)
       (example_request ''GET'' ''/users/profile'' []) =
     Some (Inr (''/users/profile'', [''GET''], failing_handler, [])) \<and>
   resolve (users_endpoints hello_handler failing_handler)
       (example_request ''GET'' ''/users/42'' []) =
     Some (Inr (''/users/:id'', [''GET''], hello_handler, [(''id'', ''42'')]))"
proof -
  have a: "sorted_endpoints (users_endpoints hello_handler failing_handler) =
     [] @ ((''/users/profile'', [''GET'']), failing_handler) #
       [((''/users/:id'', [''GET'']), hello_handler)]"
    by (simp add: users_endpoints_def sorted_endpoints_def)
  have b: "method (example_request ''GET'' ''/users/profile'' []) \<in> set [''GET'']"
    by (simp add: example_request_def)
  have c: "ure_match (route_pattern ''/users/profile'')
             (path (example_request ''GET'' ''/users/profile'' [])) = Some True"
    by (simp add: example_request_def resolve_eval)
  have d: "fill_arguments (enumerate 0 (split_on CHR ''/'' ''/users/profile''))
             (split_on CHR ''/'' (path (example_request ''GET'' ''/users/profile'' []))) [] = Inr []"
    by (simp add: example_request_def startswith_def)
  note t = resolve_longest_first [of "users_endpoints hello_handler failing_handler"
      "example_request ''GET'' ''/users/profile'' []"
      "sorted_endpoints (users_endpoints hello_handler failing_handler)" "[]"
      "''/users/profile''" "[''GET'']" failing_handler "[((''/users/:id'', [''GET'']), hello_handler)]"
      hello_handler failing_handler "''42''"]
  show ?thesis
    using t a b c d by simp
qed

subsection \<open>Parsing a request\<close>


lemma splitlines_line:
  assumes "\<forall>c \<in> set l. c \<noteq> CR \<and> c \<noteq> LF" and "nl = CRLF \<or> nl = [LF]"
  shows "splitlines (l @ nl @ rest) = l # splitlines rest"
  using assms by (induction l) auto

lemma splitlines_lines:
  assumes "\<forall>h \<in> set hs. \<forall>c \<in> set h. c \<noteq> CR \<and> c \<noteq> LF" and "nl = CRLF \<or> nl = [LF]"
  shows "splitlines (concat (map (\<lambda>h. h @ nl) hs) @ rest) = hs @ splitlines rest"
  using assms
proof (induction hs)
  case Nil
  then show ?case by simp
next
  case (Cons h hs)
  have "splitlines (h @ nl @ (concat (map (\<lambda>h. h @ nl) hs) @ rest)) =
          h # splitlines (concat (map (\<lambda>h. h @ nl) hs) @ rest)"
    by (rule splitlines_line) (use Cons.prems in auto)
  with Cons show ?case by simp
qed

lemma index_first_empty:
  assumes "\<forall>h \<in> set hs. h \<noteq> []"
  shows "index (hs @ [] # rest) [] = Some (length hs)"
  using assms by (induction hs) auto

lemma parse_headers_ok:
  assumes "\<forall>h \<in> set hs. CHR '':'' \<in> set h"
  shows "\<exists>d. parse_headers hs acc = Inr d"
  using assms by (induction hs arbitrary: acc) (auto simp: split_once_def)


lemma concat_splitlines: "concat (splitlines s) = filter (\<lambda>c. c \<noteq> CR \<and> c \<noteq> LF) s"
proof (induction s rule: splitlines.induct)
  case 1
  then show ?case by simp
next
  case (2 c cs)
  show ?case
  proof (cases "c = LF")
    case True
    with 2 show ?thesis by simp
  next
    case nlf: False
    show ?thesis
    proof (cases "c = CR")
      case True
      show ?thesis
      proof (cases cs)
        case Nil
        with True show ?thesis by simp
      next
        case (Cons d ds)
        with True nlf 2 show ?thesis by (cases "d = LF") simp_all
      qed
    next
      case False
      with nlf 2 show ?thesis by (cases "splitlines cs") simp_all
    qed
  qed
qed


text \<open>
  C3, as the code has it. For a request line of three tokens, header lines with a colon,
  an empty line and then any content (lines ended by \<^verbatim>\<open>\r\n\<close>, or all by \<^verbatim>\<open>\n\<close>),
  \<^verbatim>\<open>Request\<close> succeeds and its body is the lines of the content joined without their line
  ends: the content with every \<^verbatim>\<open>\r\<close> and \<^verbatim>\<open>\n\<close> removed. It is the content itself when the
  content holds no line end.
\<close>

theorem Request_body_joined_lines:
  assumes "split_ws bang = [m, p, pr]"
    and "\<forall>c \<in> set bang. c \<noteq> CR \<and> c \<noteq> LF"
    and "\<forall>h \<in> set hs. h \<noteq> [] \<and> CHR '':'' \<in> set h \<and> (\<forall>c \<in> set h. c \<noteq> CR \<and> c \<noteq> LF)"
    and "nl = CRLF \<or> nl = [LF]"
  shows "\<exists>r. Request (bang @ nl @ concat (map (\<lambda>h. h @ nl) hs) @ nl @ content) = Inr r \<and>
              req_body r = concat (splitlines content) \<and>
              req_body r = filter (\<lambda>c. c \<noteq> CR \<and> c \<noteq> LF) content"
proof -
  have "splitlines (bang @ nl @ concat (map (\<lambda>h. h @ nl) hs) @ nl @ content) =
          bang # splitlines (concat (map (\<lambda>h. h @ nl) hs) @ nl @ content)"
    using assms(2,4) by (rule splitlines_line)
  also have "splitlines (concat (map (\<lambda>h. h @ nl) hs) @ nl @ content) =
               hs @ splitlines (nl @ content)"
    by (rule splitlines_lines) (use assms(3,4) in blast)+
  also have "splitlines (nl @ content) = [] # splitlines content"
    using splitlines_line [of "[]" nl content] assms(4) by simp
  finally have lines: "splitlines (bang @ nl @ concat (map (\<lambda>h. h @ nl) hs) @ nl @ content) =
                         bang # (hs @ [] # splitlines content)" .
  have i: "index (hs @ [] # splitlines content) [] = Some (length hs)"
    by (rule index_first_empty) (use assms(3) in blast)
  obtain d where d: "parse_headers hs [] = Inr d"
    using parse_headers_ok [of hs "[]"] assms(3) by blast
  have "Request (bang @ nl @ concat (map (\<lambda>h. h @ nl) hs) @ nl @ content) =
          Inr \<lparr> method = m, path = p, protocol = pr, req_headers = d,
                req_body = concat (splitlines content) \<rparr>"
    unfolding Request_def lines by (simp add: assms(1) i d)
  then show ?thesis
    by (simp add: concat_splitlines)
qed


theorem Request_body_joined_lines_witness:
  "\<exists>r. Request (''PUT / HTTP/1.1'' @ CRLF @ ''Host: x'' @ CRLF @ CRLF @ ''a'' @ CRLF @ ''b'') = Inr r \<and>
       req_body r = ''ab''"
proof -
  have 1: "split_ws ''PUT / HTTP/1.1'' = [''PUT'', ''/'', ''HTTP/1.1'']"
    by (simp add: split_ws_def isspace_def)
  have 2: "\<forall>c \<in> set ''PUT / HTTP/1.1''. c \<noteq> CR \<and> c \<noteq> LF"
    by simp
  have 3: "\<forall>h \<in> set [''Host: x'']. h \<noteq> [] \<and> CHR '':'' \<in> set h \<and> (\<forall>c \<in> set h. c \<noteq> CR \<and> c \<noteq> LF)"
    by simp
  have 4: "CRLF = CRLF \<or> CRLF = [LF]"
    by simp
  have 5: "concat (map (\<lambda>h. h @ CRLF) [''Host: x'']) = ''Host: x'' @ CRLF"
    by simp
  have 6: "filter (\<lambda>c. c \<noteq> CR \<and> c \<noteq> LF) (''a'' @ CRLF @ ''b'') = ''ab''"
    by simp
  show ?thesis
    using Request_body_joined_lines [OF 1 2 3 4, of "''a'' @ CRLF @ ''b''"]
    unfolding 5 6 append_assoc by blast
qed

text \<open>
  C3, as the specification states it, fails: for the content \<^verbatim>\<open>"a\r\nb"\<close> after the empty
  line the body is \<^verbatim>\<open>"ab"\<close>, not the content.
\<close>

theorem Request_body_drops_line_ends:
  "\<exists>r. Request (example_text ''PUT'' ''/'' (''a'' @ CRLF @ ''b'')) = Inr r \<and>
       req_body r = ''ab'' \<and> req_body r \<noteq> ''a'' @ CRLF @ ''b''"
  by (simp add: example_text_def request_eval)

subsection \<open>The route table is shared\<close>


lemma own_endpoints_App_route [simp]:
  "own_endpoints (apps (App_route w self route methods f) i) = own_endpoints (apps w i)"
  by (simp add: App_route_def Let_def)

lemma own_endpoints_App_handle [simp]:
  "own_endpoints (apps (snd (App_handle w self text)) i) = own_endpoints (apps w i)"
  by (simp add: App_handle_def split: sum.splits)

lemma own_endpoints_initial [simp]: "own_endpoints (apps initial_world i) = None"
  by (simp add: initial_world_def)

text \<open>
  C10. The dictionary of the routes belongs to the class: for two \<^verbatim>\<open>App\<close> objects \<open>a\<close> and
  \<open>b\<close> without an \<^verbatim>\<open>endpoints\<close> attribute of their own (no operation of the module gives an
  object one), a route registered through \<open>a\<close> is in the dictionary that \<open>b\<close> reads, and
  \<^verbatim>\<open>b.resolve\<close> resolves against the dictionary with that route stored, as \<^verbatim>\<open>a.resolve\<close>
  does.
\<close>

theorem endpoints_shared_by_all_apps:
  assumes "own_endpoints (apps w a) = None" and "own_endpoints (apps w b) = None"
  shows "map_of (dicts (App_route w a route methods f) (self_endpoints (App_route w a route methods f) b))
           (route, methods) = Some f \<and>
         App_resolve (App_route w a route methods f) b request =
           resolve (dict_set (dicts w (App_endpoints w)) (route, methods) f) request \<and>
         App_resolve (App_route w a route methods f) b request =
           App_resolve (App_route w a route methods f) a request"
  using assms by (simp add: App_resolve_def App_route_def self_endpoints_def Let_def map_of_dict_set)

theorem endpoints_shared_by_all_apps_witness:
  "own_endpoints (apps initial_world 0) = None \<and> own_endpoints (apps initial_world 1) = None \<and>
   App_resolve initial_world 1 (example_request ''GET'' ''/'' []) =
     Some (Inl (HTTPException ''No route found for request GET /'' 404)) \<and>
   App_resolve (App_route initial_world 0 ''/'' [''GET''] hello_handler) 1
       (example_request ''GET'' ''/'' []) =
     Some (Inr (''/'', [''GET''], hello_handler, []))"
proof -
  have 0: "own_endpoints (apps initial_world 0) = None"
    and 1: "own_endpoints (apps initial_world 1) = None"
    by simp_all
  have 2: "App_resolve initial_world 1 (example_request ''GET'' ''/'' []) =
     Some (Inl (HTTPException ''No route found for request GET /'' 404))"
    by (simp add: App_resolve_def initial_world_def self_endpoints_def example_request_def
        resolve_eval)
  have 3: "resolve (dict_set (dicts initial_world (App_endpoints initial_world)) (''/'', [''GET''])
             hello_handler) (example_request ''GET'' ''/'' []) =
           Some (Inr (''/'', [''GET''], hello_handler, []))"
    by (simp add: initial_world_def example_request_def resolve_eval)
  show ?thesis
    using endpoints_shared_by_all_apps [OF 0 1, of "''/''" "[''GET'']" hello_handler
        "example_request ''GET'' ''/'' []"]
    unfolding 3 using 0 1 2 by blast
qed

end
